theory Spec2Isabelle
  imports Complex_Main
begin

section \<open>Detection model\<close>

text \<open>
  The module-level constants of \<^verbatim>\<open>bridger_survey_realistic.py\<close> and
  \<^verbatim>\<open>bridger_spatial_survey.py\<close>. Python floats are read as real numbers: the
  decimal literal \<^verbatim>\<open>1.27\<close> is the rational 127/100. Rounding of IEEE doubles
  and the value NaN are outside this reading, except where a NaN is what a
  function returns (see \<open>pyfloat\<close> below).
\<close>

definition POD_90_GPS :: real where "POD_90_GPS = 127 / 100"
definition POD_90_KGPH :: real where "POD_90_KGPH = 127 / 100"
definition LOGISTIC_STEEPNESS :: real where "LOGISTIC_STEEPNESS = 2"
definition BASELINE_WIND_MS :: real where "BASELINE_WIND_MS = 7 / 2"
definition WIND_EXPONENT :: real where "WIND_EXPONENT = - (3 / 10)"
definition MIN_WIND_MS :: real where "MIN_WIND_MS = 1"
definition MAX_WIND_MS :: real where "MAX_WIND_MS = 6"
definition SURVEY_COVERAGE_PCT :: real where "SURVEY_COVERAGE_PCT = 1 / 5"

text \<open>\<^verbatim>\<open>np.clip(a, a_min, a_max)\<close> is \<^verbatim>\<open>minimum(maximum(a, a_min), a_max)\<close>.\<close>

definition clip :: "real \<Rightarrow> real \<Rightarrow> real \<Rightarrow> real" where
  "clip a a_min a_max = min (max a a_min) a_max"

text \<open>\<^verbatim>\<open>pod_bridger\<close> of \<^verbatim>\<open>bridger_survey_realistic.py\<close>, line by line.\<close>

definition pod_bridger :: "real \<Rightarrow> real \<Rightarrow> real" where
  "pod_bridger emission_rate_kgph wind_speed_ms =
     (let wind_factor = exp (WIND_EXPONENT * (wind_speed_ms - BASELINE_WIND_MS));
          adjusted_threshold = POD_90_GPS * wind_factor
      in if emission_rate_kgph \<le> 0 then 0
         else
           (let log_e = ln emission_rate_kgph;
                log_threshold = ln adjusted_threshold;
                exponent = LOGISTIC_STEEPNESS * (log_e - log_threshold);
                pod = 1 / (1 + exp (- exponent))
            in clip pod 0 1))"

text \<open>\<^verbatim>\<open>pod_bridger\<close> of \<^verbatim>\<open>bridger_spatial_survey.py\<close>: the same body over
  the constant \<^verbatim>\<open>POD_90_KGPH\<close>.\<close>

definition pod_bridger_spatial :: "real \<Rightarrow> real \<Rightarrow> real" where
  "pod_bridger_spatial emission_rate_kgph wind_speed_ms =
     (let wind_factor = exp (WIND_EXPONENT * (wind_speed_ms - BASELINE_WIND_MS));
          adjusted_threshold = POD_90_KGPH * wind_factor
      in if emission_rate_kgph \<le> 0 then 0
         else
           (let log_e = ln emission_rate_kgph;
                log_threshold = ln adjusted_threshold;
                exponent = LOGISTIC_STEEPNESS * (log_e - log_threshold);
                pod = 1 / (1 + exp (- exponent))
            in clip pod 0 1))"

section \<open>Python values, errors and the random source\<close>

datatype error = ValueError | TypeError | IndexError | ReadError | ZeroDivisionError

text \<open>A float that may be NaN: the mean of an empty pandas Series.\<close>

datatype pyfloat = Finite real | NaN

text \<open>\<^verbatim>\<open>int(x)\<close> on a float truncates toward zero.\<close>

definition py_int :: "real \<Rightarrow> int" where
  "py_int x = (if 0 \<le> x then \<lfloor>x\<rfloor> else \<lceil>x\<rceil>)"

text \<open>
  The ambient generator \<^verbatim>\<open>np.random\<close> is made explicit: what each kind of draw
  returns is a field of the random source. \<open>rand_unif\<close> is the variate in [0, 1)
  behind \<^verbatim>\<open>uniform\<close>, \<open>rand_pick\<close> the position behind \<^verbatim>\<open>choice(arr)\<close>,
  \<open>rand_perm n\<close> the permutation of \<^verbatim>\<open>range(n)\<close> behind
  \<^verbatim>\<open>choice(..., replace=False)\<close>, and \<open>rand_coins k\<close> the k-th variate behind
  \<^verbatim>\<open>binomial(1, p)\<close>.
\<close>

record rand =
  rand_unif :: real
  rand_pick :: nat
  rand_perm :: "nat \<Rightarrow> nat list"
  rand_coins :: "nat \<Rightarrow> real"


definition random_uniform :: "rand \<Rightarrow> real \<Rightarrow> real \<Rightarrow> real" where
  "random_uniform g low high = low + (high - low) * rand_unif g"

definition random_choice :: "rand \<Rightarrow> real list \<Rightarrow> error + real" where
  "random_choice g a =
     (if a = [] then Inl ValueError else Inr (a ! (rand_pick g mod length a)))"

text \<open>\<^verbatim>\<open>np.random.choice(n, size=k, replace=False)\<close>: the first k positions of a
  permutation; a negative size or one above the population raises.\<close>

definition choice_without_replacement :: "rand \<Rightarrow> nat \<Rightarrow> int \<Rightarrow> error + nat list" where
  "choice_without_replacement g n k =
     (if k < 0 \<or> int n < k then Inl ValueError
      else Inr (take (nat k) (rand_perm g n)))"

fun bernoulli_draws :: "(nat \<Rightarrow> real) \<Rightarrow> nat \<Rightarrow> real list \<Rightarrow> nat list" where
  "bernoulli_draws c k [] = []"
| "bernoulli_draws c k (p # ps) =
     (if c k < p then 1 else 0) # bernoulli_draws c (Suc k) ps"

text \<open>\<^verbatim>\<open>np.random.binomial(1, p)\<close> over an array of probabilities, starting at
  coin \<open>k\<close>; a probability outside [0, 1] raises.\<close>

definition random_binomial1 :: "rand \<Rightarrow> nat \<Rightarrow> real list \<Rightarrow> error + nat list" where
  "random_binomial1 g k ps =
     (if list_ex (\<lambda>p. p < 0 \<or> 1 < p) ps then Inl ValueError
      else Inr (bernoulli_draws (rand_coins g) k ps))"

section \<open>Wind sampler\<close>

text \<open>
  The external wind series as the sampler meets it: no file at the path, a file
  that \<^verbatim>\<open>pd.read_csv\<close> cannot parse, or a table of named columns. A column holds
  numbers with gaps (\<open>None\<close> is a missing cell, dropped by \<^verbatim>\<open>dropna\<close>) or text,
  on which the comparison with a float raises.
\<close>

datatype column = Numeric "real option list" | Text

datatype tmy_file = Missing | Unreadable | Table "(string \<times> column) list"

datatype warning = TMY_not_found | No_wind_column | No_flyable | Load_error

fun path_exists :: "tmy_file \<Rightarrow> bool" where
  "path_exists Missing = False"
| "path_exists Unreadable = True"
| "path_exists (Table cols) = True"

fun read_csv :: "tmy_file \<Rightarrow> error + (string \<times> column) list" where
  "read_csv Missing = Inl ReadError"
| "read_csv Unreadable = Inl ReadError"
| "read_csv (Table cols) = Inr cols"

text \<open>The \<^verbatim>\<open>if 'WindSpeed' in columns ... elif 'wind_speed' in columns\<close> chain.\<close>

definition wind_column :: "(string \<times> column) list \<Rightarrow> column option" where
  "wind_column tmy_df =
     (if map_of tmy_df ''WindSpeed'' \<noteq> None then map_of tmy_df ''WindSpeed''
      else if map_of tmy_df ''wind_speed'' \<noteq> None then map_of tmy_df ''wind_speed''
      else None)"

fun dropna :: "real option list \<Rightarrow> real list" where
  "dropna [] = []"
| "dropna (None # xs) = dropna xs"
| "dropna (Some x # xs) = x # dropna xs"

text \<open>\<^verbatim>\<open>wind_data[(wind_data >= MIN_WIND_MS) & (wind_data <= MAX_WIND_MS)]\<close>.\<close>

fun flyable_values :: "column \<Rightarrow> error + real list" where
  "flyable_values Text = Inl TypeError"
| "flyable_values (Numeric xs) =
     Inr (filter (\<lambda>v. MIN_WIND_MS \<le> v \<and> v \<le> MAX_WIND_MS) (dropna xs))"

text \<open>The body of the \<^verbatim>\<open>try\<close> of \<^verbatim>\<open>bridger_survey_realistic.py\<close>: the sample
  and the warnings printed on the way.\<close>

definition tmy_try :: "tmy_file \<Rightarrow> rand \<Rightarrow> error + real \<times> warning list" where
  "tmy_try tmy g =
     (case read_csv tmy of
        Inl e \<Rightarrow> Inl e
      | Inr tmy_df \<Rightarrow>
          (case wind_column tmy_df of
             None \<Rightarrow> Inr (random_uniform g MIN_WIND_MS MAX_WIND_MS, [No_wind_column])
           | Some col \<Rightarrow>
               (case flyable_values col of
                  Inl e \<Rightarrow> Inl e
                | Inr flyable \<Rightarrow>
                    if length flyable = 0
                    then Inr (random_uniform g MIN_WIND_MS MAX_WIND_MS, [No_flyable])
                    else (case random_choice g flyable of
                            Inl e \<Rightarrow> Inl e
                          | Inr v \<Rightarrow> Inr (v, [])))))"

text \<open>\<^verbatim>\<open>sample_wind_from_tmy\<close> of \<^verbatim>\<open>bridger_survey_realistic.py\<close>: the
  returned float and what was printed. \<^verbatim>\<open>except Exception\<close> turns every error of
  the body into the uniform draw.\<close>

definition sample_wind_from_tmy :: "tmy_file \<Rightarrow> rand \<Rightarrow> error + real \<times> warning list" where
  "sample_wind_from_tmy tmy g =
     (if \<not> path_exists tmy
      then Inr (random_uniform g MIN_WIND_MS MAX_WIND_MS, [TMY_not_found])
      else (case tmy_try tmy g of
              Inl e \<Rightarrow> Inr (random_uniform g MIN_WIND_MS MAX_WIND_MS, [Load_error])
            | Inr r \<Rightarrow> Inr r))"

text \<open>The same function in \<^verbatim>\<open>bridger_spatial_survey.py\<close>: no branch prints, and
  the handler is a bare \<^verbatim>\<open>except\<close>.\<close>

definition tmy_try_spatial :: "tmy_file \<Rightarrow> rand \<Rightarrow> error + real" where
  "tmy_try_spatial tmy g =
     (case read_csv tmy of
        Inl e \<Rightarrow> Inl e
      | Inr tmy_df \<Rightarrow>
          (case wind_column tmy_df of
             None \<Rightarrow> Inr (random_uniform g MIN_WIND_MS MAX_WIND_MS)
           | Some col \<Rightarrow>
               (case flyable_values col of
                  Inl e \<Rightarrow> Inl e
                | Inr flyable \<Rightarrow>
                    if length flyable = 0
                    then Inr (random_uniform g MIN_WIND_MS MAX_WIND_MS)
                    else random_choice g flyable)))"

definition sample_wind_from_tmy_spatial :: "tmy_file \<Rightarrow> rand \<Rightarrow> error + real" where
  "sample_wind_from_tmy_spatial tmy g =
     (if \<not> path_exists tmy then Inr (random_uniform g MIN_WIND_MS MAX_WIND_MS)
      else (case tmy_try_spatial tmy g of
              Inl e \<Rightarrow> Inr (random_uniform g MIN_WIND_MS MAX_WIND_MS)
            | Inr v \<Rightarrow> Inr v))"


section \<open>Survey simulator\<close>

text \<open>
  A portfolio is read through its emission column only, a list of rates in kg/h;
  the simulators use no other column. \<^verbatim>\<open>emissions_df.iloc[idx]\<close> raises on a
  position outside the frame.
\<close>

definition iloc :: "real list \<Rightarrow> nat list \<Rightarrow> error + real list" where
  "iloc df idx =
     (if list_all (\<lambda>i. i < length df) idx then Inr (map (\<lambda>i. df ! i) idx)
      else Inl IndexError)"

text \<open>\<^verbatim>\<open>Series.mean()\<close>: NaN on an empty Series.\<close>

definition series_mean :: "real list \<Rightarrow> pyfloat" where
  "series_mean xs = (if xs = [] then NaN else Finite (sum_list xs / real (length xs)))"

record survey_result =
  wind_speed_ms :: real
  pods :: "real list"
  detected :: "nat list"
  emissions_sampled :: real
  emissions_detected :: real
  wells_sampled :: nat
  wells_detected :: nat
  avg_pod :: pyfloat

text \<open>\<^verbatim>\<open>simulate_survey\<close> of \<^verbatim>\<open>bridger_survey_realistic.py\<close>. The state of the
  wind file and the random source are the two inputs the Python takes from its
  environment.\<close>

definition simulate_survey ::
    "real list \<Rightarrow> real \<Rightarrow> tmy_file \<Rightarrow> rand \<Rightarrow> error + survey_result" where
  "simulate_survey emissions_df coverage_pct tmy g =
     (let n_wells = length emissions_df;
          n_survey = py_int (real n_wells * coverage_pct)
      in case choice_without_replacement g n_wells n_survey of
           Inl e \<Rightarrow> Inl e
         | Inr survey_indices \<Rightarrow>
             (case iloc emissions_df survey_indices of
                Inl e \<Rightarrow> Inl e
              | Inr survey_wells \<Rightarrow>
                  (case sample_wind_from_tmy tmy g of
                     Inl e \<Rightarrow> Inl e
                   | Inr (wind_speed, printed) \<Rightarrow>
                       (let pod = map (\<lambda>e. pod_bridger e wind_speed) survey_wells
                        in case random_binomial1 g 0 pod of
                             Inl e \<Rightarrow> Inl e
                           | Inr det \<Rightarrow>
                               Inr \<lparr> wind_speed_ms = wind_speed,
                                     pods = pod,
                                     detected = det,
                                     emissions_sampled = sum_list survey_wells,
                                     emissions_detected =
                                       sum_list (map2 (\<lambda>e d. e * real d) survey_wells det),
                                     wells_sampled = length survey_wells,
                                     wells_detected = sum_list det,
                                     avg_pod = series_mean pod \<rparr>))))"

text \<open>\<^verbatim>\<open>gdf[mask]\<close> with a boolean array: raises unless the mask is as long as the
  frame.\<close>

definition boolean_mask :: "real list \<Rightarrow> bool list \<Rightarrow> error + real list" where
  "boolean_mask gdf mask' =
     (if length mask' \<noteq> length gdf then Inl IndexError
      else Inr (map fst (filter snd (zip gdf mask'))))"

text \<open>The five accumulators of \<^verbatim>\<open>simulate_quarterly_survey\<close>.\<close>

record quarter_totals =
  total_wells :: nat
  total_emissions_sampled :: real
  detected_wells :: nat
  detected_emissions :: real
  pod_list :: "real list"

text \<open>The \<^verbatim>\<open>for cluster_id in cluster_id_list\<close> loop. One coin is consumed per
  well, so the next free coin is at \<open>length (pod_list acc)\<close>.\<close>

fun survey_clusters ::
    "real list \<Rightarrow> int list \<Rightarrow> rand \<Rightarrow> real \<Rightarrow> int list \<Rightarrow> quarter_totals
       \<Rightarrow> error + quarter_totals" where
  "survey_clusters gdf cluster_labels g wind_speed [] acc = Inr acc"
| "survey_clusters gdf cluster_labels g wind_speed (cluster_id # rest) acc =
     (let mask = map (\<lambda>l. l = cluster_id) cluster_labels
      in case boolean_mask gdf mask of
           Inl e \<Rightarrow> Inl e
         | Inr cluster_wells \<Rightarrow>
             (let pod = map (\<lambda>e. pod_bridger_spatial e wind_speed) cluster_wells
              in case random_binomial1 g (length (pod_list acc)) pod of
                   Inl e \<Rightarrow> Inl e
                 | Inr det \<Rightarrow>
                     survey_clusters gdf cluster_labels g wind_speed rest
                       \<lparr> total_wells = total_wells acc + length cluster_wells,
                         total_emissions_sampled =
                           total_emissions_sampled acc + sum_list cluster_wells,
                         detected_wells = detected_wells acc + sum_list det,
                         detected_emissions =
                           detected_emissions acc
                             + sum_list (map2 (\<lambda>e d. e * real d) cluster_wells det),
                         pod_list = pod_list acc @ pod \<rparr>))"

text \<open>The result dictionary of \<^verbatim>\<open>simulate_quarterly_survey\<close>; the keys it shares
  with \<open>survey_result\<close> carry the suffix \<open>_q\<close>.\<close>

record quarter_result =
  clusters_surveyed :: nat
  wells_surveyed :: nat
  emissions_surveyed_kgph :: real
  wind_speed_ms_q :: real
  avg_pod_q :: real
  wells_detected_q :: nat
  emissions_detected_kgph :: real

definition simulate_quarterly_survey ::
    "real list \<Rightarrow> int list \<Rightarrow> int list \<Rightarrow> tmy_file \<Rightarrow> rand \<Rightarrow> error + quarter_result" where
  "simulate_quarterly_survey gdf cluster_labels cluster_id_list tmy g =
     (case sample_wind_from_tmy_spatial tmy g of
        Inl e \<Rightarrow> Inl e
      | Inr wind_speed \<Rightarrow>
          (case survey_clusters gdf cluster_labels g wind_speed cluster_id_list
                  \<lparr> total_wells = 0, total_emissions_sampled = 0, detected_wells = 0,
                    detected_emissions = 0, pod_list = [] \<rparr> of
             Inl e \<Rightarrow> Inl e
           | Inr t \<Rightarrow>
               Inr \<lparr> clusters_surveyed = length cluster_id_list,
                     wells_surveyed = total_wells t,
                     emissions_surveyed_kgph = total_emissions_sampled t,
                     wind_speed_ms_q = wind_speed,
                     avg_pod_q =
                       (if pod_list t \<noteq> []
                        then sum_list (pod_list t) / real (length (pod_list t)) else 0),
                     wells_detected_q = detected_wells t,
                     emissions_detected_kgph = detected_emissions t \<rparr>))"




section \<open>Strategy aggregator\<close>

record strategy_result =
  strategy :: string
  annual_survey_pct :: real
  years :: real
  days_per_year :: real
  annual_detection_kgph :: real
  annual_mitigation_pct :: real
  cumulative_detection_5yr_kgph :: real
  cumulative_mitigation_5yr_pct :: real

text \<open>\<^verbatim>\<open>calculate_strategy\<close> of \<^verbatim>\<open>survey_strategy_summary.py\<close>. The arguments
  that share a name with a key of the result are primed. Dividing by a zero
  portfolio total raises.\<close>

definition calculate_strategy ::
    "string \<Rightarrow> real \<Rightarrow> real \<Rightarrow> real \<Rightarrow> real \<Rightarrow> error + strategy_result" where
  "calculate_strategy strategy_name annual_survey_pct' years'
       mean_detection_per_survey_kgph total_portfolio_kgph =
     (let annual_detection =
            (annual_survey_pct' / 100) * mean_detection_per_survey_kgph
              * (total_portfolio_kgph / 100);
          cumulative_detection = annual_detection * years'
      in if total_portfolio_kgph = 0 then Inl ZeroDivisionError
         else
           (let cumulative_pct = (cumulative_detection / total_portfolio_kgph) * 100;
                days_per_year' = (annual_survey_pct' / 100) * 108
            in Inr \<lparr> strategy = strategy_name,
                     annual_survey_pct = annual_survey_pct',
                     years = years',
                     days_per_year = days_per_year',
                     annual_detection_kgph = annual_detection,
                     annual_mitigation_pct = (annual_detection / total_portfolio_kgph) * 100,
                     cumulative_detection_5yr_kgph = cumulative_detection,
                     cumulative_mitigation_5yr_pct = cumulative_pct \<rparr>))"

section \<open>A concrete random source\<close>

text \<open>One fixed outcome of the generator, used to run the simulators on concrete
  inputs: the uniform variate is 1/2 (so the fallback wind is 3.5 m/s), a choice
  takes the first element, a permutation is the identity, and every coin is 0.\<close>

definition example_rand :: rand where
  "example_rand = \<lparr> rand_unif = 1 / 2, rand_pick = 0, rand_perm = (\<lambda>n. [0..<n]),
                     rand_coins = (\<lambda>k. 0) \<rparr>"

section \<open>Properties of the detection model\<close>

lemma pod_bridger_spatial_eq: "pod_bridger_spatial e w = pod_bridger e w"
  by (simp add: pod_bridger_spatial_def pod_bridger_def POD_90_KGPH_def POD_90_GPS_def)

lemma logistic_open_unit: "0 < 1 / (1 + exp (- x :: real)) \<and> 1 / (1 + exp (- x)) < 1"
proof -
  have "0 < exp (- x)" by simp
  then have "1 < 1 + exp (- x)" by simp
  then show ?thesis by (simp add: add_pos_pos)
qed

lemma logistic_strict_mono:
  fixes x y :: real
  assumes "x < y"
  shows "1 / (1 + exp (- x)) < 1 / (1 + exp (- y))"
proof -
  have "exp (- y) < exp (- x)" using assms by simp
  then have "1 + exp (- y) < 1 + exp (- x)" by simp
  moreover have "0 < 1 + exp (- y)" by (simp add: add_pos_pos)
  ultimately show ?thesis by (simp add: frac_less2)
qed

lemma ln_times_exp: "0 < a \<Longrightarrow> ln (a * exp b) = ln a + (b :: real)"
  by (simp add: ln_mult)

text \<open>For a positive rate the clamp does not bind and the two logarithms combine:
  the exponent is \<open>2 * (ln e - ln 1.27 + 0.3 * (w - 3.5))\<close>.\<close>

lemma clip_unit_id: "0 \<le> p \<Longrightarrow> p \<le> 1 \<Longrightarrow> clip p 0 1 = p"
  by (simp add: clip_def)

lemma pod_bridger_pos:
  assumes "0 < e"
  shows "pod_bridger e w =
           1 / (1 + exp (- (2 * (ln e - ln (127 / 100) + 3 / 10 * (w - 7 / 2)))))"
proof -
  let ?x = "2 * (ln e - ln (127 / 100) + 3 / 10 * (w - 7 / 2))"
  have ne: "\<not> e \<le> 0" using assms by simp
  have thr: "ln (127 / 100 * exp (- (3 / 10) * (w - 7 / 2))) =
               ln (127 / 100) + - (3 / 10) * (w - 7 / 2)"
    by (rule ln_times_exp) simp
  have eq: "2 * (ln e - (ln (127 / 100) + - (3 / 10) * (w - 7 / 2))) = ?x"
    by simp
  have "pod_bridger e w =
          clip (1 / (1 + exp (- (2 * (ln e - ln (127 / 100 * exp (- (3 / 10) * (w - 7 / 2)))))))) 0 1"
    unfolding pod_bridger_def Let_def POD_90_GPS_def LOGISTIC_STEEPNESS_def
      BASELINE_WIND_MS_def WIND_EXPONENT_def
    by (simp only: ne if_False)
  also have "\<dots> = clip (1 / (1 + exp (- ?x))) 0 1"
    by (simp only: thr eq)
  also have "\<dots> = 1 / (1 + exp (- ?x))"
    using logistic_open_unit [of ?x] by (intro clip_unit_id) simp_all
  finally show ?thesis .
qed

lemma pod_bridger_nonpos: "e \<le> 0 \<Longrightarrow> pod_bridger e w = 0"
  by (simp add: pod_bridger_def Let_def)

lemma pod_bridger_unit: "0 \<le> pod_bridger e w \<and> pod_bridger e w \<le> 1"
proof (cases "e \<le> 0")
  case True
  then show ?thesis by (simp add: pod_bridger_nonpos)
next
  case False
  then have "0 < e" by simp
  with logistic_open_unit [of "2 * (ln e - ln (127 / 100) + 3 / 10 * (w - 7 / 2))"]
  show ?thesis by (simp add: pod_bridger_pos)
qed

lemma pod_bridger_midpoint: "pod_bridger (127 / 100) (7 / 2) = 1 / 2"
  by (simp add: pod_bridger_pos)

lemma pod_bridger_rate_strict:
  assumes "0 < e1" and "e1 < e2"
  shows "pod_bridger e1 w < pod_bridger e2 w"
proof -
  have "ln e1 < ln e2" using assms by simp
  then have "2 * (ln e1 - ln (127 / 100) + 3 / 10 * (w - 7 / 2))
               < 2 * (ln e2 - ln (127 / 100) + 3 / 10 * (w - 7 / 2))"
    by simp
  then show ?thesis
    using assms by (simp only: pod_bridger_pos order_less_trans [OF assms] logistic_strict_mono)
qed


section \<open>Claims on the detection model\<close>

text \<open>
  C8. With the default constants, the detection probability of 1.27 kg/h at the
  baseline wind of 3.5 m/s is the logistic midpoint 0.5, in both modules, and so
  is not the 90 % of the calibration label.
\<close>

theorem C8_pod_at_threshold_is_half:
  "pod_bridger POD_90_GPS BASELINE_WIND_MS = 1 / 2
   \<and> pod_bridger_spatial POD_90_KGPH BASELINE_WIND_MS = 1 / 2
   \<and> pod_bridger (127 / 100) (7 / 2) \<noteq> 9 / 10"
  by (simp add: pod_bridger_spatial_eq POD_90_GPS_def POD_90_KGPH_def BASELINE_WIND_MS_def
      pod_bridger_midpoint)

text \<open>
  C3. For every emission rate and every wind speed the detection probability
  lies in the closed interval [0, 1], and it is exactly 0 whenever the emission
  rate is not positive; this holds for \<open>pod_bridger\<close> of both modules.
\<close>

theorem C3_pod_in_unit_interval:
  "0 \<le> pod_bridger e w \<and> pod_bridger e w \<le> 1
   \<and> 0 \<le> pod_bridger_spatial e w \<and> pod_bridger_spatial e w \<le> 1
   \<and> (e \<le> 0 \<longrightarrow> pod_bridger e w = 0 \<and> pod_bridger_spatial e w = 0)"
  using pod_bridger_unit [of e w] pod_bridger_nonpos [of e w]
  by (simp add: pod_bridger_spatial_eq)

theorem C3_pod_in_unit_interval_witness:
  "(- 1 :: real) \<le> 0 \<and> pod_bridger (- 1) 3 = 0 \<and> pod_bridger_spatial (- 1) 3 = 0
   \<and> 0 \<le> pod_bridger 2 3 \<and> pod_bridger 2 3 \<le> 1"
  using C3_pod_in_unit_interval [of "- 1" 3] C3_pod_in_unit_interval [of 2 3] by simp

text \<open>
  C7. At a fixed wind speed and for positive emission rates \<open>e1 < e2\<close>, the
  detection probability at \<open>e1\<close> is at most that at \<open>e2\<close>; over the reals the
  clamp never binds, so the inequality is strict. This holds in both modules.
\<close>

theorem C7_pod_monotone_in_rate:
  "0 < e1 \<Longrightarrow> e1 < e2 \<Longrightarrow>
     pod_bridger e1 w \<le> pod_bridger e2 w \<and> pod_bridger e1 w < pod_bridger e2 w
     \<and> pod_bridger_spatial e1 w \<le> pod_bridger_spatial e2 w
     \<and> pod_bridger_spatial e1 w < pod_bridger_spatial e2 w"
  using pod_bridger_rate_strict [of e1 e2 w] by (simp add: pod_bridger_spatial_eq)

theorem C7_pod_monotone_in_rate_witness:
  "(0 :: real) < 1 \<and> (1 :: real) < 2 \<and> pod_bridger 1 3 < pod_bridger 2 3
   \<and> pod_bridger_spatial 1 3 \<le> pod_bridger_spatial 2 3"
  using C7_pod_monotone_in_rate [of 1 2 3] by simp




section \<open>Properties of the random source and the simulators\<close>

lemma bernoulli_draws_length: "length (bernoulli_draws c k ps) = length ps"
  by (induction ps arbitrary: k) simp_all

lemma bernoulli_draws_le_one: "d \<in> set (bernoulli_draws c k ps) \<Longrightarrow> d \<le> 1"
  by (induction ps arbitrary: k) (auto split: if_splits)

lemma sum_list_le_length:
  "(\<And>d. d \<in> set ds \<Longrightarrow> d \<le> (1 :: nat)) \<Longrightarrow> sum_list ds \<le> length ds"
proof (induction ds)
  case Nil
  then show ?case by simp
next
  case (Cons d ds)
  have "d \<le> 1" using Cons.prems by simp
  moreover have "sum_list ds \<le> length ds" using Cons by simp
  ultimately show ?case by simp
qed

lemma weighted_sum_le:
  fixes es :: "real list" and ds :: "nat list"
  assumes "\<And>e. e \<in> set es \<Longrightarrow> 0 \<le> e" and "\<And>d. d \<in> set ds \<Longrightarrow> d \<le> 1"
  shows "sum_list (map2 (\<lambda>e d. e * real d) es ds) \<le> sum_list es"
  using assms
proof (induction es arbitrary: ds)
  case Nil
  then show ?case by simp
next
  case (Cons e es)
  show ?case
  proof (cases ds)
    case Nil
    have "0 \<le> sum_list (e # es)" using Cons.prems(1) by (intro sum_list_nonneg) simp
    with Nil show ?thesis by simp
  next
    case (Cons d ds')
    have d: "real d \<le> 1" using Cons.prems(2) Cons by simp
    have e: "0 \<le> e" using Cons.prems(1) by simp
    have "e * real d \<le> e" using d e by (simp add: mult_left_le)
    moreover have "sum_list (map2 (\<lambda>e d. e * real d) es ds') \<le> sum_list es"
      using Cons.prems Cons by (intro Cons.IH) simp_all
    ultimately show ?thesis using Cons by simp
  qed
qed

lemma random_binomial1_Inr:
  "random_binomial1 g k ps = Inr det \<Longrightarrow> det = bernoulli_draws (rand_coins g) k ps"
  by (simp add: random_binomial1_def split: if_splits)


lemma sample_wind_from_tmy_returns: "\<exists>v p. sample_wind_from_tmy tmy g = Inr (v, p)"
  by (cases "tmy_try tmy g") (auto simp: sample_wind_from_tmy_def)

lemma sample_wind_from_tmy_spatial_returns: "\<exists>v. sample_wind_from_tmy_spatial tmy g = Inr v"
  by (cases "tmy_try_spatial tmy g") (auto simp: sample_wind_from_tmy_spatial_def)

lemma iloc_Inr_subset: "iloc df idx = Inr ws \<Longrightarrow> set ws \<subseteq> set df"
  by (auto simp: iloc_def list_all_iff split: if_splits)

lemma simulate_survey_bounds:
  assumes nn: "\<And>e. e \<in> set emissions_df \<Longrightarrow> 0 \<le> e"
    and res: "simulate_survey emissions_df coverage_pct tmy g = Inr r"
  shows "emissions_detected r \<le> emissions_sampled r \<and> wells_detected r \<le> wells_sampled r"
proof -
  from res obtain idx ws w p det where
    ws: "iloc emissions_df idx = Inr ws"
    and det: "random_binomial1 g 0 (map (\<lambda>e. pod_bridger e w) ws) = Inr det"
    and r: "r = \<lparr> wind_speed_ms = w, pods = map (\<lambda>e. pod_bridger e w) ws, detected = det,
                  emissions_sampled = sum_list ws,
                  emissions_detected = sum_list (map2 (\<lambda>e d. e * real d) ws det),
                  wells_sampled = length ws, wells_detected = sum_list det,
                  avg_pod = series_mean (map (\<lambda>e. pod_bridger e w) ws) \<rparr>"
    by (auto simp: simulate_survey_def Let_def split: sum.splits prod.splits)
  have d: "det = bernoulli_draws (rand_coins g) 0 (map (\<lambda>e. pod_bridger e w) ws)"
    using det by (rule random_binomial1_Inr)
  have le1: "\<And>x. x \<in> set det \<Longrightarrow> x \<le> 1"
    unfolding d by (rule bernoulli_draws_le_one)
  have nnw: "\<And>e. e \<in> set ws \<Longrightarrow> 0 \<le> e"
    using iloc_Inr_subset [OF ws] nn by auto
  have "sum_list (map2 (\<lambda>e d. e * real d) ws det) \<le> sum_list ws"
    using nnw le1 by (rule weighted_sum_le)
  moreover have "sum_list det \<le> length ws"
    using sum_list_le_length [of det] le1 by (simp add: d bernoulli_draws_length)
  ultimately show ?thesis by (simp add: r)
qed


lemma boolean_mask_subset: "boolean_mask gdf m = Inr ws \<Longrightarrow> set ws \<subseteq> set gdf"
  by (auto simp: boolean_mask_def split: if_splits) (meson set_zip_leftD)

lemma survey_clusters_bounds:
  assumes nn: "\<And>e. e \<in> set gdf \<Longrightarrow> 0 \<le> e"
    and res: "survey_clusters gdf cluster_labels g w ids acc = Inr t"
    and inv: "detected_emissions acc \<le> total_emissions_sampled acc"
             "detected_wells acc \<le> total_wells acc"
  shows "detected_emissions t \<le> total_emissions_sampled t \<and> detected_wells t \<le> total_wells t"
  using res inv
proof (induction ids arbitrary: acc)
  case Nil
  then show ?case by simp
next
  case (Cons cid rest)
  let ?m = "map (\<lambda>l. l = cid) cluster_labels"
  from Cons.prems(1) obtain ws where ws: "boolean_mask gdf ?m = Inr ws"
    by (cases "boolean_mask gdf ?m") (simp_all add: Let_def)
  let ?pod = "map (\<lambda>e. pod_bridger_spatial e w) ws"
  from Cons.prems(1) ws obtain det where det: "random_binomial1 g (length (pod_list acc)) ?pod = Inr det"
    by (cases "random_binomial1 g (length (pod_list acc)) ?pod") (simp_all add: Let_def)
  let ?acc = "\<lparr> total_wells = total_wells acc + length ws,
                 total_emissions_sampled = total_emissions_sampled acc + sum_list ws,
                 detected_wells = detected_wells acc + sum_list det,
                 detected_emissions =
                   detected_emissions acc + sum_list (map2 (\<lambda>e d. e * real d) ws det),
                 pod_list = pod_list acc @ ?pod \<rparr>"
  have step: "survey_clusters gdf cluster_labels g w rest ?acc = Inr t"
    using Cons.prems(1) ws det by (simp add: Let_def)
  have d: "det = bernoulli_draws (rand_coins g) (length (pod_list acc)) ?pod"
    using det by (rule random_binomial1_Inr)
  have le1: "\<And>x. x \<in> set det \<Longrightarrow> x \<le> 1"
    unfolding d by (rule bernoulli_draws_le_one)
  have nnw: "\<And>e. e \<in> set ws \<Longrightarrow> 0 \<le> e"
    using boolean_mask_subset [OF ws] nn by auto
  have a: "sum_list (map2 (\<lambda>e d. e * real d) ws det) \<le> sum_list ws"
    using nnw le1 by (rule weighted_sum_le)
  have b: "sum_list det \<le> length ws"
    using sum_list_le_length [of det] le1 by (simp add: d bernoulli_draws_length)
  show ?case
  proof (rule Cons.IH [OF step])
    show "detected_emissions ?acc \<le> total_emissions_sampled ?acc"
      using a Cons.prems(2) by simp
    show "detected_wells ?acc \<le> total_wells ?acc"
      using b Cons.prems(3) by simp
  qed
qed

lemma simulate_quarterly_survey_bounds:
  assumes nn: "\<And>e. e \<in> set gdf \<Longrightarrow> 0 \<le> e"
    and res: "simulate_quarterly_survey gdf cluster_labels ids tmy g = Inr r"
  shows "emissions_detected_kgph r \<le> emissions_surveyed_kgph r
         \<and> wells_detected_q r \<le> wells_surveyed r"
proof -
  let ?z = "\<lparr> total_wells = 0, total_emissions_sampled = 0, detected_wells = 0,
               detected_emissions = 0, pod_list = [] \<rparr>"
  from res obtain w t where
    t: "survey_clusters gdf cluster_labels g w ids ?z = Inr t"
    and r: "emissions_detected_kgph r = detected_emissions t"
           "emissions_surveyed_kgph r = total_emissions_sampled t"
           "wells_detected_q r = detected_wells t" "wells_surveyed r = total_wells t"
    by (auto simp: simulate_quarterly_survey_def split: sum.splits)
  have "detected_emissions t \<le> total_emissions_sampled t \<and> detected_wells t \<le> total_wells t"
    by (rule survey_clusters_bounds [OF nn t]) simp_all
  then show ?thesis by (simp add: r)
qed
















section \<open>Claims on the wind sampler\<close>




section \<open>Claims on the strategy aggregator\<close>

text \<open>
  C2. Scenario D of the specification: 20 % annual coverage over 5 years, a yield
  of 230 kg/h per 1 % and a portfolio total of 55,389.2 kg/h should give about
  4,604 kg/h of annual detection and about 41.6 % of cumulative mitigation.
  \<^verbatim>\<open>calculate_strategy\<close> returns 25,479.032 kg/h and 230 % on these inputs.
\<close>

theorem C2_strategy_scenario_D:
  "calculate_strategy ''Standard'' 20 5 230 (553892 / 10)
     = Inr \<lparr> strategy = ''Standard'', annual_survey_pct = 20, years = 5,
             days_per_year = 108 / 5,
             annual_detection_kgph = 25479032 / 1000,
             annual_mitigation_pct = 46,
             cumulative_detection_5yr_kgph = 127395160 / 1000,
             cumulative_mitigation_5yr_pct = 230 \<rparr>"
  by (simp add: calculate_strategy_def Let_def)

section \<open>Claims on the survey simulator\<close>

text \<open>
  C5. An empty selection should give a zero-filled result with finite fields.
  \<^verbatim>\<open>simulate_survey\<close> returns, but its \<open>avg_pod\<close> is NaN whenever no well is
  selected: on four wells at 20 % coverage, and on an empty portfolio at any
  coverage. \<^verbatim>\<open>simulate_quarterly_survey\<close> guards the mean and returns the
  zero-filled result on an empty cluster list.
\<close>

theorem C5_empty_selection:
  "map_sum id avg_pod (simulate_survey [1 / 2, 1, 2, 3] SURVEY_COVERAGE_PCT tmy g) = Inr NaN
   \<and> map_sum id avg_pod (simulate_survey [] c tmy g) = Inr NaN
   \<and> simulate_quarterly_survey gdf cluster_labels [] tmy g
       = Inr \<lparr> clusters_surveyed = 0, wells_surveyed = 0, emissions_surveyed_kgph = 0,
               wind_speed_ms_q = projr (sample_wind_from_tmy_spatial tmy g),
               avg_pod_q = 0, wells_detected_q = 0, emissions_detected_kgph = 0 \<rparr>"
proof -
  obtain w p where w: "sample_wind_from_tmy tmy g = Inr (w, p)"
    using sample_wind_from_tmy_returns by blast
  obtain v where v: "sample_wind_from_tmy_spatial tmy g = Inr v"
    using sample_wind_from_tmy_spatial_returns by blast
  have a: "map_sum id avg_pod (simulate_survey [1 / 2, 1, 2, 3] SURVEY_COVERAGE_PCT tmy g)
             = Inr NaN"
    by (simp add: simulate_survey_def Let_def SURVEY_COVERAGE_PCT_def py_int_def
        choice_without_replacement_def iloc_def w random_binomial1_def series_mean_def)
  have b: "map_sum id avg_pod (simulate_survey [] c tmy g) = Inr NaN"
    by (simp add: simulate_survey_def Let_def py_int_def
        choice_without_replacement_def iloc_def w random_binomial1_def series_mean_def)
  have c: "simulate_quarterly_survey gdf cluster_labels [] tmy g
       = Inr \<lparr> clusters_surveyed = 0, wells_surveyed = 0, emissions_surveyed_kgph = 0,
               wind_speed_ms_q = projr (sample_wind_from_tmy_spatial tmy g),
               avg_pod_q = 0, wells_detected_q = 0, emissions_detected_kgph = 0 \<rparr>"
    by (simp add: simulate_quarterly_survey_def v)
  from a b c show ?thesis by simp
qed

text \<open>
  C9. When every emission rate is non-negative, a survey event that returns a
  result has detected emissions at most the sampled emissions and detected wells
  at most the sampled wells, for \<^verbatim>\<open>simulate_survey\<close> and for
  \<^verbatim>\<open>simulate_quarterly_survey\<close>.
\<close>

theorem C9_detected_within_sampled:
  "((\<forall>e \<in> set emissions_df. 0 \<le> e)
      \<and> simulate_survey emissions_df coverage_pct tmy g = Inr r
     \<longrightarrow> emissions_detected r \<le> emissions_sampled r \<and> wells_detected r \<le> wells_sampled r)
   \<and> ((\<forall>e \<in> set gdf. 0 \<le> e)
      \<and> simulate_quarterly_survey gdf cluster_labels cluster_id_list tmy' g' = Inr q
     \<longrightarrow> emissions_detected_kgph q \<le> emissions_surveyed_kgph q
         \<and> wells_detected_q q \<le> wells_surveyed q)"
  using simulate_survey_bounds [of emissions_df coverage_pct tmy g r]
    simulate_quarterly_survey_bounds [of gdf cluster_labels cluster_id_list tmy' g' q]
  by blast

lemma example_survey:
  "simulate_survey [127 / 100, 0] 1 Missing example_rand
     = Inr \<lparr> wind_speed_ms = 7 / 2, pods = [1 / 2, 0], detected = [1, 0],
             emissions_sampled = 127 / 100, emissions_detected = 127 / 100,
             wells_sampled = 2, wells_detected = 1, avg_pod = Finite (1 / 4) \<rparr>"
  by (simp add: simulate_survey_def Let_def py_int_def choice_without_replacement_def
      example_rand_def iloc_def sample_wind_from_tmy_def random_uniform_def
      MIN_WIND_MS_def MAX_WIND_MS_def random_binomial1_def pod_bridger_midpoint
      pod_bridger_nonpos series_mean_def)

lemma example_quarter:
  "simulate_quarterly_survey [127 / 100, 0, 0] [0, 0, - 1] [0] Missing example_rand
     = Inr \<lparr> clusters_surveyed = 1, wells_surveyed = 2, emissions_surveyed_kgph = 127 / 100,
             wind_speed_ms_q = 7 / 2, avg_pod_q = 1 / 4, wells_detected_q = 1,
             emissions_detected_kgph = 127 / 100 \<rparr>"
  by (simp add: simulate_quarterly_survey_def Let_def sample_wind_from_tmy_spatial_def
      random_uniform_def example_rand_def MIN_WIND_MS_def MAX_WIND_MS_def boolean_mask_def
      random_binomial1_def pod_bridger_spatial_eq pod_bridger_midpoint pod_bridger_nonpos)

theorem C9_detected_within_sampled_witness:
  "list_all (\<lambda>e. 0 \<le> e) [127 / 100, 0 :: real]
   \<and> list_all (\<lambda>e. 0 \<le> e) [127 / 100, 0, 0 :: real]
   \<and> (\<exists>r. simulate_survey [127 / 100, 0] 1 Missing example_rand = Inr r
         \<and> emissions_detected r \<le> emissions_sampled r \<and> wells_detected r \<le> wells_sampled r
         \<and> wells_detected r = 1)
   \<and> (\<exists>q. simulate_quarterly_survey [127 / 100, 0, 0] [0, 0, - 1] [0] Missing example_rand = Inr q
         \<and> emissions_detected_kgph q \<le> emissions_surveyed_kgph q
         \<and> wells_detected_q q \<le> wells_surveyed q \<and> wells_detected_q q = 1)"
  using C9_detected_within_sampled
    [of "[127 / 100, 0]" 1 Missing example_rand
        "\<lparr> wind_speed_ms = 7 / 2, pods = [1 / 2, 0], detected = [1, 0],
           emissions_sampled = 127 / 100, emissions_detected = 127 / 100,
           wells_sampled = 2, wells_detected = 1, avg_pod = Finite (1 / 4) \<rparr>"
        "[127 / 100, 0, 0]" "[0, 0, - 1]" "[0]" Missing example_rand
        "\<lparr> clusters_surveyed = 1, wells_surveyed = 2, emissions_surveyed_kgph = 127 / 100,
           wind_speed_ms_q = 7 / 2, avg_pod_q = 1 / 4, wells_detected_q = 1,
           emissions_detected_kgph = 127 / 100 \<rparr>"]
  by (simp add: example_survey example_quarter)







end
